theory Spec2Isabelle
  imports Complex_Main
begin

section \<open>Python values the agent handles\<close>

text \<open>
  Exceptions are values: a function that can raise returns \<open>exn + 'a\<close>, with \<open>Inl\<close> the
  exception. \<open>str_exn\<close> is Python's \<open>str(e)\<close> for these classes: the message.
\<close>

datatype exn =
    ValueError string
  | TypeError string
  | AttributeError string
  | JSONDecodeError string
  | RecursionError string
  | OtherError string

fun str_exn :: "exn \<Rightarrow> string" where
  "str_exn (ValueError m) = m"
| "str_exn (TypeError m) = m"
| "str_exn (AttributeError m) = m"
| "str_exn (JSONDecodeError m) = m"
| "str_exn (RecursionError m) = m"
| "str_exn (OtherError m) = m"

text \<open>
  The decimal text of an integer, as an f-string prints it.
\<close>

definition digit :: "int \<Rightarrow> char" where
  "digit d = ''0123456789'' ! nat d"

function str_digits :: "int \<Rightarrow> string" where
  "str_digits n = (if n < 10 then [digit n] else str_digits (n div 10) @ [digit (n mod 10)])"
  by pat_completeness auto
termination
  by (relation "measure nat") auto

definition str_int :: "int \<Rightarrow> string" where
  "str_int n = (if n < 0 then CHR ''-'' # str_digits (- n) else str_digits n)"

text \<open>
  The values that flow through the evidence normalizer. A \<open>PDict\<close> lists its items in
  insertion order and has string keys (every dictionary the agent builds has); a \<open>PObj\<close>
  is an instance with a \<open>__dict__\<close>, given by its class name and its attributes in order;
  a \<open>POpaque\<close> is an instance without \<open>__dict__\<close>, such as a \<open>datetime\<close>, given by its
  class name. A \<open>PFloat\<close> carries the real number the float stands for, so NaN and the
  infinities are not values of the model.
\<close>

datatype pyval =
    PNone
  | PBool bool
  | PInt int
  | PFloat real
  | PStr string
  | PList "pyval list"
  | PTuple "pyval list"
  | PDict "(string \<times> pyval) list"
  | PObj string "(string \<times> pyval) list"
  | POpaque string

fun type_name :: "pyval \<Rightarrow> string" where
  "type_name PNone = ''NoneType''"
| "type_name (PBool _) = ''bool''"
| "type_name (PInt _) = ''int''"
| "type_name (PFloat _) = ''float''"
| "type_name (PStr _) = ''str''"
| "type_name (PList _) = ''list''"
| "type_name (PTuple _) = ''tuple''"
| "type_name (PDict _) = ''dict''"
| "type_name (PObj c _) = c"
| "type_name (POpaque c) = c"

text \<open>\<open>hasattr(v, '__dict__')\<close> and \<open>getattr(v, name, default)\<close>.\<close>

fun has_dict :: "pyval \<Rightarrow> bool" where
  "has_dict (PObj _ _) = True"
| "has_dict _ = False"

fun getattr_default :: "pyval \<Rightarrow> string \<Rightarrow> pyval \<Rightarrow> pyval" where
  "getattr_default (PObj _ attrs) a d = (case map_of attrs a of Some v \<Rightarrow> v | None \<Rightarrow> d)"
| "getattr_default _ a d = d"

type_synonym datetime = int

section \<open>Binary64 arithmetic of the weighted score\<close>

text \<open>
  The weights \<open>0.6\<close> and \<open>0.4\<close> are binary64 literals, and \<open>score * weight\<close> and the sum
  are binary64 operations: the exact result rounded to 53 significant bits, ties to even.
  A value is held as an integer count of units of \<open>2\<^sup>-\<^sup>5\<^sup>4\<close>; the literals are then
  \<open>10808639105689190\<close> (\<open>0x1.3333333333333p-1\<close>) and \<open>7205759403792794\<close>
  (\<open>0x1.999999999999ap-2\<close>). The scores are integers, converted exactly (they are far below \<open>2\<^sup>5\<^sup>3\<close>).
  Magnitudes stay far from overflow and from the subnormal range.
\<close>

function bit_length :: "int \<Rightarrow> nat" where
  "bit_length n = (if n \<le> 0 then 0 else Suc (bit_length (n div 2)))"
  by pat_completeness auto
termination
  by (relation "measure nat") auto

declare bit_length.simps [simp del]

definition round_to_53 :: "int \<Rightarrow> int" where
  "round_to_53 n =
     (if bit_length n \<le> 53 then n
      else let sh = bit_length n - 53;
               q = n div 2 ^ sh;
               r = n mod 2 ^ sh;
               h = 2 ^ (sh - 1)
           in (if r < h then q
               else if h < r then q + 1
               else if even q then q else q + 1) * 2 ^ sh)"

definition round_binary64 :: "int \<Rightarrow> int" where
  "round_binary64 n = (if n < 0 then - round_to_53 (- n) else round_to_53 n)"

definition on_chain_weight :: int where
  "on_chain_weight = 10808639105689190"

definition off_chain_weight :: int where
  "off_chain_weight = 7205759403792794"

definition float_mul_int :: "int \<Rightarrow> int \<Rightarrow> int" where
  "float_mul_int s w = round_binary64 (s * w)"

definition float_add :: "int \<Rightarrow> int \<Rightarrow> int" where
  "float_add a b = round_binary64 (a + b)"

text \<open>\<open>int(x)\<close> of a float: truncation toward zero.\<close>

definition int_of_float :: "int \<Rightarrow> int" where
  "int_of_float x = (if x < 0 then - ((- x) div 2 ^ 54) else x div 2 ^ 54)"

text \<open>
  Lines 233 to 242 of \<open>_generate_veritas_score\<close>:
  \<^verbatim>\<open>overall_score = int((on_chain["score"] * 0.6) + (off_chain["score"] * 0.4))\<close>
  \<^verbatim>\<open>overall_score = max(1, min(100, overall_score))\<close>
\<close>

definition weighted_overall :: "int \<Rightarrow> int \<Rightarrow> int" where
  "weighted_overall s1 s2 =
     max 1 (min 100 (int_of_float
       (float_add (float_mul_int s1 on_chain_weight) (float_mul_int s2 off_chain_weight))))"

section \<open>The blockchain analyzer\<close>

datatype ChainType = ETHEREUM | POLYGON | BSC | ARBITRUM | OPTIMISM

fun chain_value :: "ChainType \<Rightarrow> string" where
  "chain_value ETHEREUM = ''ethereum''"
| "chain_value POLYGON = ''polygon''"
| "chain_value BSC = ''bsc''"
| "chain_value ARBITRUM = ''arbitrum''"
| "chain_value OPTIMISM = ''optimism''"

record ContractAnalysis =
  address :: string
  is_verified :: bool
  creation_date :: "datetime option"
  creator_address :: string
  transaction_count :: int
  unique_interactors :: int
  total_value_locked :: real
  proxy_pattern :: bool
  ownership_analysis :: "(string \<times> pyval) list"
  security_indicators :: "string list"
  risk_factors :: "string list"

text \<open>
  What \<open>analyze_contract\<close> reads from the web3 library: whether the analyzer holds a
  connection for the chain, the library's address check and checksum form, and the code
  at the address (its length, or the exception of the network call).
\<close>

record w3_env =
  connected :: "ChainType \<Rightarrow> bool"
  is_address :: "string \<Rightarrow> bool"
  to_checksum_address :: "string \<Rightarrow> string"
  get_code :: "string \<Rightarrow> exn + nat"

text \<open>
  \<open>analyze_contract\<close>: three guards that raise \<open>ValueError\<close>, then the record assembled
  from the five helper analyses, which return fixed placeholders. \<open>now\<close> is the clock
  reading of \<open>datetime.now()\<close>, in seconds; thirty days are 2592000 seconds.
\<close>

definition analyze_contract ::
    "w3_env \<Rightarrow> datetime \<Rightarrow> string \<Rightarrow> ChainType \<Rightarrow> exn + ContractAnalysis" where
  "analyze_contract env now contract_address chain =
     (if \<not> connected env chain
        then Inl (ValueError (''No connection available for '' @ chain_value chain))
      else if \<not> is_address env contract_address
        then Inl (ValueError (''Invalid address format: '' @ contract_address))
      else let addr = to_checksum_address env contract_address in
        (case get_code env addr of
           Inl e \<Rightarrow> Inl e
         | Inr len \<Rightarrow>
             if \<not> len > 0
               then Inl (ValueError (''Address '' @ addr @ '' is not a contract''))
             else Inr \<lparr> address = addr,
                        is_verified = True,
                        creation_date = Some (now - 2592000),
                        creator_address = ''0x742d35Cc6634C0532925a3b8D4030d542F5a5bD'',
                        transaction_count = 1500,
                        unique_interactors = 450,
                        total_value_locked = 2500000,
                        proxy_pattern = False,
                        ownership_analysis =
                          [(''has_owner'', PBool True),
                           (''owner_address'', PStr ''0x742d35Cc6634C0532925a3b8D4030d542F5a5bD''),
                           (''is_multisig'', PBool False),
                           (''timelock_delay'', PInt 0),
                           (''upgrade_pattern'', PStr ''none''),
                           (''admin_keys'', PList [PStr ''owner''])],
                        security_indicators =
                          [''Contract verified'', ''No obvious vulnerabilities'',
                           ''Standard patterns used''],
                        risk_factors =
                          [''Owner has full control'', ''No timelock on critical functions''] \<rparr>))"

text \<open>
  The holder analysis that \<open>_calculate_distribution_score\<close> reads: the \<open>top_holders\<close>
  entry (\<open>None\<close> when the key is missing), each holder with its percentage of supply.
\<close>

record holder =
  holder_address :: string
  balance :: real
  percentage :: real

record holder_analysis =
  total_holders :: int
  top_holders :: "holder list option"

definition calculate_distribution_score :: "holder_analysis \<Rightarrow> int" where
  "calculate_distribution_score ha =
     (case top_holders ha of
        None \<Rightarrow> 50
      | Some [] \<Rightarrow> 50
      | Some (h # _) \<Rightarrow>
          let top_holder_percentage = percentage h in
          if top_holder_percentage > 50 then 20
          else if top_holder_percentage > 30 then 40
          else if top_holder_percentage > 20 then 60
          else if top_holder_percentage > 10 then 80
          else 95)"

text \<open>
  \<open>quick_contract_score\<close>, given what its call of \<open>analyze_contract\<close> produced: the
  \<open>except\<close> clause returns 50.
\<close>

definition quick_contract_score :: "exn + ContractAnalysis \<Rightarrow> int" where
  "quick_contract_score r =
     (case r of
        Inl e \<Rightarrow> 50
      | Inr analysis \<Rightarrow>
          let score = 50;
              score = (if is_verified analysis then score + 20 else score);
              score = (if transaction_count analysis > 100 then score + 10 else score);
              score = (if unique_interactors analysis > 50 then score + 10 else score);
              score = (if length (risk_factors analysis) = 0 then score + 10 else score)
          in min 100 (max 1 score))"

section \<open>The off-chain scan\<close>

text \<open>The dictionary \<open>quick_project_scan\<close> returns, with its two summaries as records.\<close>

record social_sentiment =
  overall_sentiment :: string
  sentiment_score :: real
  mention_volume :: int
  positive_mentions :: int
  negative_mentions :: int
  neutral_mentions :: int
  key_topics :: "string list"
  influencer_mentions :: "string list"
  red_flags :: "string list"

record team_verification =
  team_members_found :: int
  verified_members :: int
  linkedin_profiles :: "string list"
  github_profiles :: "string list"
  previous_projects :: "string list"
  credibility_indicators :: "string list"
  warning_signs :: "string list"

record project_scan =
  project_mentions :: pyval
  sentiment :: social_sentiment
  team_info :: team_verification
  scan_timestamp :: string

section \<open>The agent\<close>

record basic_analysis =
  verified :: bool
  basic_transaction_count :: int
  basic_creation_date :: "datetime option"

text \<open>
  \<open>ProjectData\<close>: \<open>on_chain_data\<close> is empty or holds the one entry \<open>basic_analysis\<close>;
  \<open>off_chain_data\<close> is empty or holds the scan.
\<close>

record ProjectData =
  name :: string
  project_address :: "string option"
  website :: "string option"
  social_links :: "(string \<times> string) list"
  on_chain_data :: "basic_analysis option"
  off_chain_data :: "project_scan option"

text \<open>
  The dictionary both analysis steps return. The keys \<open>analysis\<close> and
  \<open>total_value_locked\<close> are absent from some of the dictionaries: \<open>None\<close> then.
\<close>

datatype analysis_entry = Analysis_text string | Analysis_object ContractAnalysis

record sub_result =
  score :: int
  factors :: "string list"
  risks :: "string list"
  analysis :: "analysis_entry option"
  value_locked :: "real option"

record VeritasScore =
  overall_score :: int
  confidence_level :: pyval
  on_chain_score :: int
  off_chain_score :: int
  score_risk_factors :: "string list"
  positive_factors :: "string list"
  analysis_timestamp :: datetime
  evidence :: pyval

text \<open>
  \<open>_collect_project_data\<close>. \<open>r_basic\<close> is the outcome of its \<open>analyze_contract\<close> call
  (made only for an address) and \<open>scan\<close> the outcome of \<open>quick_project_scan\<close>; both
  exceptions are caught and printed.
\<close>

definition collect_project_data ::
    "string \<Rightarrow> string \<Rightarrow> exn + ContractAnalysis \<Rightarrow> exn + project_scan \<Rightarrow> ProjectData" where
  "collect_project_data identifier project_type r_basic scan =
     (let is_addr = (length identifier = 42 \<and> take 2 identifier = ''0x'') in
      \<lparr> name = (if \<not> is_addr then identifier else ''Contract_'' @ take 8 identifier),
        project_address = (if is_addr then Some identifier else None),
        website = None,
        social_links = [],
        on_chain_data =
          (if is_addr then
             (case r_basic of
                Inl e \<Rightarrow> None
              | Inr contract_analysis \<Rightarrow>
                  Some \<lparr> verified = is_verified contract_analysis,
                         basic_transaction_count = transaction_count contract_analysis,
                         basic_creation_date = creation_date contract_analysis \<rparr>)
           else None),
        off_chain_data = (case scan of Inl e \<Rightarrow> None | Inr off_chain \<Rightarrow> Some off_chain) \<rparr>)"

text \<open>
  \<open>_analyze_on_chain_data\<close>. \<open>r_detail\<close> is the outcome of its own \<open>analyze_contract\<close>
  call, \<open>r_score\<close> the outcome of the call inside \<open>quick_contract_score\<close>. An address that
  is \<open>None\<close> or empty is falsy.
\<close>

definition analyze_on_chain_data ::
    "ProjectData \<Rightarrow> exn + ContractAnalysis \<Rightarrow> exn + ContractAnalysis \<Rightarrow> sub_result" where
  "analyze_on_chain_data project_data r_detail r_score =
     (if project_address project_data = None \<or> project_address project_data = Some []
      then \<lparr> score = 30,
             factors = [],
             risks = [''No contract address provided''],
             analysis = Some (Analysis_text
               ''Cannot perform on-chain analysis without contract address''),
             value_locked = None \<rparr>
      else
        (case r_detail of
           Inl e \<Rightarrow>
             \<lparr> score = 20,
               factors = [],
               risks = [''Analysis failed: '' @ str_exn e],
               analysis = Some (Analysis_text ''Error during on-chain analysis''),
               value_locked = None \<rparr>
         | Inr contract_analysis \<Rightarrow>
             let sc = quick_contract_score r_score;
                 fs = [];
                 fs = (if is_verified contract_analysis
                       then fs @ [''Contract source code verified''] else fs);
                 fs = (if transaction_count contract_analysis > 100
                       then fs @ [''Active usage ('' @
                              str_int (transaction_count contract_analysis) @ '' transactions)'']
                       else fs);
                 fs = (if unique_interactors contract_analysis > 50
                       then fs @ [''Diverse user base ('' @
                              str_int (unique_interactors contract_analysis) @ '' unique users)'']
                       else fs);
                 fs = fs @ security_indicators contract_analysis;
                 rs = risk_factors contract_analysis;
                 rs = (if transaction_count contract_analysis < 10
                       then rs @ [''Very low transaction activity''] else rs);
                 rs = (if \<not> is_verified contract_analysis
                       then rs @ [''Contract source code not verified''] else rs)
             in \<lparr> score = sc,
                  factors = fs,
                  risks = rs,
                  analysis = Some (Analysis_object contract_analysis),
                  value_locked = Some (total_value_locked contract_analysis) \<rparr>))"

text \<open>\<open>_analyze_off_chain_data\<close>: a placeholder that does not read the project data.\<close>

definition analyze_off_chain_data :: "ProjectData \<Rightarrow> sub_result" where
  "analyze_off_chain_data project_data =
     \<lparr> score = 75,
       factors = [''Positive media coverage'', ''Active community''],
       risks = [''Limited team information''],
       analysis = None,
       value_locked = None \<rparr>"

section \<open>The evidence normalizer\<close>

text \<open>
  The Python values the records stand for. A \<open>ContractAnalysis\<close> is a dataclass instance,
  its attributes in declaration order; its \<open>creation_date\<close> is a \<open>datetime\<close> or
  \<open>None\<close>. A sub-result is the dictionary literal of the branch that built it.
\<close>

definition str_list :: "string list \<Rightarrow> pyval" where
  "str_list xs = PList (map PStr xs)"

definition object_of_analysis :: "ContractAnalysis \<Rightarrow> pyval" where
  "object_of_analysis a =
     PObj ''ContractAnalysis''
       [(''address'', PStr (address a)),
        (''is_verified'', PBool (is_verified a)),
        (''creation_date'',
           (case creation_date a of None \<Rightarrow> PNone | Some d \<Rightarrow> POpaque ''datetime'')),
        (''creator_address'', PStr (creator_address a)),
        (''transaction_count'', PInt (transaction_count a)),
        (''unique_interactors'', PInt (unique_interactors a)),
        (''total_value_locked'', PFloat (total_value_locked a)),
        (''proxy_pattern'', PBool (proxy_pattern a)),
        (''ownership_analysis'', PDict (ownership_analysis a)),
        (''security_indicators'', str_list (security_indicators a)),
        (''risk_factors'', str_list (risk_factors a))]"

definition dict_of_sub_result :: "sub_result \<Rightarrow> pyval" where
  "dict_of_sub_result r =
     PDict ([(''score'', PInt (score r)),
             (''factors'', str_list (factors r)),
             (''risks'', str_list (risks r))]
            @ (case analysis r of
                 None \<Rightarrow> []
               | Some (Analysis_text t) \<Rightarrow> [(''analysis'', PStr t)]
               | Some (Analysis_object a) \<Rightarrow> [(''analysis'', object_of_analysis a)])
            @ (case value_locked r of
                 None \<Rightarrow> []
               | Some x \<Rightarrow> [(''total_value_locked'', PFloat x)]))"

text \<open>
  The normalizer on a value that is a finite tree, as every dictionary the audit builds
  is. The branches in the source's order: a dictionary, item by item, where the item
  \<open>analysis\<close> holding an instance becomes the record of six named fields read with
  \<open>getattr\<close> and a default; a list, element by element; any other instance with a
  \<open>__dict__\<close>, attribute by attribute; everything else as it is. The section on the
  store gives \<open>_serialize_analysis_data\<close> on arbitrary objects, and the two are proved
  to agree on every object that unfolds to a tree.
\<close>

fun serialize_tree :: "pyval \<Rightarrow> pyval" where
  "serialize_tree (PDict items) =
     PDict (map (\<lambda>kv.
       if fst kv = ''analysis'' \<and> has_dict (snd kv)
       then (fst kv,
             PDict [(''address'', getattr_default (snd kv) ''address'' (PStr [])),
                    (''is_verified'', getattr_default (snd kv) ''is_verified'' (PBool False)),
                    (''transaction_count'',
                       getattr_default (snd kv) ''transaction_count'' (PInt 0)),
                    (''unique_interactors'',
                       getattr_default (snd kv) ''unique_interactors'' (PInt 0)),
                    (''risk_factors'', getattr_default (snd kv) ''risk_factors'' (PList [])),
                    (''security_indicators'',
                       getattr_default (snd kv) ''security_indicators'' (PList []))])
       else (fst kv, serialize_tree (snd kv))) items)"
| "serialize_tree (PList xs) = PList (map serialize_tree xs)"
| "serialize_tree (PObj c attrs) =
     PDict (map (\<lambda>kv. (fst kv, serialize_tree (snd kv))) attrs)"
| "serialize_tree v = v"

section \<open>The evidence normalizer on a store\<close>

text \<open>
  Python values are objects that hold references, so a list can contain itself and an
  instance can reach itself through its attributes. A store numbers the objects from 0;
  a container cell lists the references of its elements. \<open>lookup\<close> reads a reference.
\<close>

type_synonym ref = nat

datatype cell =
    CNone
  | CBool bool
  | CInt int
  | CFloat real
  | CStr string
  | CList "ref list"
  | CTuple "ref list"
  | CDict "(string \<times> ref) list"
  | CInstance string "(string \<times> ref) list"
  | COpaque string

type_synonym store = "cell list"

definition lookup :: "store \<Rightarrow> ref \<Rightarrow> cell option" where
  "lookup s r = (if r < length s then Some (s ! r) else None)"

text \<open>
  What the normalizer returns: an object it was given, as it is (\<open>Same\<close>); a default of
  \<open>getattr\<close> (\<open>Default\<close>); a new dictionary or a new list of such results.
\<close>

datatype normalized =
    Same ref
  | Default pyval
  | NewDict "(string \<times> normalized) list"
  | NewList "normalized list"

fun is_instance :: "cell option \<Rightarrow> bool" where
  "is_instance (Some (CInstance _ _)) = True"
| "is_instance _ = False"

text \<open>\<open>getattr(value, name, default)\<close> on the object at a reference.\<close>

definition getattr_at :: "store \<Rightarrow> ref \<Rightarrow> string \<Rightarrow> pyval \<Rightarrow> normalized" where
  "getattr_at s r a dflt =
     (case lookup s r of
        Some (CInstance c attrs) \<Rightarrow>
          (case map_of attrs a of Some v \<Rightarrow> Same v | None \<Rightarrow> Default dflt)
      | _ \<Rightarrow> Default dflt)"

definition analysis_fields :: "store \<Rightarrow> ref \<Rightarrow> normalized" where
  "analysis_fields s r =
     NewDict [(''address'', getattr_at s r ''address'' (PStr [])),
              (''is_verified'', getattr_at s r ''is_verified'' (PBool False)),
              (''transaction_count'', getattr_at s r ''transaction_count'' (PInt 0)),
              (''unique_interactors'', getattr_at s r ''unique_interactors'' (PInt 0)),
              (''risk_factors'', getattr_at s r ''risk_factors'' (PList [])),
              (''security_indicators'', getattr_at s r ''security_indicators'' (PList []))]"

fun sequence_results :: "(exn + 'a) list \<Rightarrow> exn + 'a list" where
  "sequence_results [] = Inr []"
| "sequence_results (Inl e # rs) = Inl e"
| "sequence_results (Inr x # rs) =
     (case sequence_results rs of Inl e \<Rightarrow> Inl e | Inr xs \<Rightarrow> Inr (x # xs))"

text \<open>
  \<open>_serialize_analysis_data\<close> on the object at a reference. The function calls itself
  on every item, element and attribute, and the interpreter allows only so many nested
  calls: the first argument is the number of nested calls that still fit on its stack,
  and a call that does not fit raises \<open>RecursionError\<close>. The first failing item ends
  the loop.
\<close>

fun serialize_analysis_data :: "nat \<Rightarrow> store \<Rightarrow> ref \<Rightarrow> exn + normalized" where
  "serialize_analysis_data 0 s r = Inl (RecursionError ''maximum recursion depth exceeded'')"
| "serialize_analysis_data (Suc d) s r =
     (case lookup s r of
        Some (CDict items) \<Rightarrow>
          (case sequence_results (map (\<lambda>kv.
                  if fst kv = ''analysis'' \<and> is_instance (lookup s (snd kv))
                  then Inr (fst kv, analysis_fields s (snd kv))
                  else (case serialize_analysis_data d s (snd kv) of
                          Inl e \<Rightarrow> Inl e | Inr n \<Rightarrow> Inr (fst kv, n))) items) of
             Inl e \<Rightarrow> Inl e
           | Inr ns \<Rightarrow> Inr (NewDict ns))
      | Some (CList rs) \<Rightarrow>
          (case sequence_results (map (serialize_analysis_data d s) rs) of
             Inl e \<Rightarrow> Inl e
           | Inr ns \<Rightarrow> Inr (NewList ns))
      | Some (CInstance c attrs) \<Rightarrow>
          (case sequence_results (map (\<lambda>kv.
                  case serialize_analysis_data d s (snd kv) of
                    Inl e \<Rightarrow> Inl e | Inr n \<Rightarrow> Inr (fst kv, n)) attrs) of
             Inl e \<Rightarrow> Inl e
           | Inr ns \<Rightarrow> Inr (NewDict ns))
      | _ \<Rightarrow> Inr (Same r))"





section \<open>JSON at the level of values\<close>

text \<open>
  What \<open>json.loads(json.dumps(v))\<close> returns, as the Python standard library documents
  it: \<open>None\<close>, booleans, integers, floats and strings come back as they went; a list
  and a tuple both come back as a list; a dictionary (with string keys) comes back as a
  dictionary, item by item; \<open>json.dumps\<close> raises \<open>TypeError\<close> on any other object.
\<close>

definition not_serializable :: "string \<Rightarrow> exn" where
  "not_serializable c = TypeError (''Object of type '' @ c @ '' is not JSON serializable'')"

fun json_loads_dumps :: "pyval \<Rightarrow> exn + pyval" where
  "json_loads_dumps (PList xs) =
     (case sequence_results (map json_loads_dumps xs) of
        Inl e \<Rightarrow> Inl e | Inr ys \<Rightarrow> Inr (PList ys))"
| "json_loads_dumps (PTuple xs) =
     (case sequence_results (map json_loads_dumps xs) of
        Inl e \<Rightarrow> Inl e | Inr ys \<Rightarrow> Inr (PList ys))"
| "json_loads_dumps (PDict items) =
     (case sequence_results (map (\<lambda>kv. json_loads_dumps (snd kv)) items) of
        Inl e \<Rightarrow> Inl e | Inr ys \<Rightarrow> Inr (PDict (zip (map fst items) ys)))"
| "json_loads_dumps (PObj c attrs) = Inl (not_serializable c)"
| "json_loads_dumps (POpaque c) = Inl (not_serializable c)"
| "json_loads_dumps v = Inr v"

section \<open>The judgment oracle and the final score\<close>

text \<open>
  What the chat-completion call and \<open>json.loads\<close> can do, as \<open>_ai_score_analysis\<close> sees
  it: the call raises; the response has no choice (\<open>choices[0]\<close> raises
  \<open>IndexError\<close>); the content is \<open>None\<close> or empty; the content is text that
  \<open>json.loads\<close> rejects; the content parses to a value.
\<close>

datatype oracle_outcome =
    Call_raises exn
  | No_choices
  | Content_empty
  | Content_unparseable string
  | Content_json pyval

definition degraded_judgment :: pyval where
  "degraded_judgment =
     PDict [(''confidence'', PFloat (1 / 2)),
            (''key_insights'', PList [PStr ''AI analysis incomplete due to error'']),
            (''risk_level'', PStr ''medium''),
            (''recommendation'', PStr ''Manual review recommended'')]"

text \<open>
  \<open>_ai_score_analysis\<close>: the prompt is built inside the \<open>try\<close>, so an evidence document
  that \<open>json.dumps\<close> rejects is caught like every other failure.
\<close>

definition ai_score_analysis :: "pyval \<Rightarrow> oracle_outcome \<Rightarrow> pyval" where
  "ai_score_analysis ev outcome =
     (case json_loads_dumps ev of
        Inl e \<Rightarrow> degraded_judgment
      | Inr _ \<Rightarrow>
          (case outcome of
             Call_raises e \<Rightarrow> degraded_judgment
           | No_choices \<Rightarrow> degraded_judgment
           | Content_empty \<Rightarrow> degraded_judgment
           | Content_unparseable s \<Rightarrow> degraded_judgment
           | Content_json v \<Rightarrow> v))"

text \<open>\<open>d.get(key, default)\<close>: an \<open>AttributeError\<close> on a value that is no dictionary.\<close>

definition dict_get :: "pyval \<Rightarrow> string \<Rightarrow> pyval \<Rightarrow> exn + pyval" where
  "dict_get d k dflt =
     (case d of
        PDict items \<Rightarrow> Inr (case map_of items k of Some v \<Rightarrow> v | None \<Rightarrow> dflt)
      | _ \<Rightarrow> Inl (AttributeError
                 ([CHR 0x27] @ type_name d @ [CHR 0x27] @ '' object has no attribute ''
                  @ [CHR 0x27] @ ''get'' @ [CHR 0x27])))"

definition build_evidence :: "ProjectData \<Rightarrow> sub_result \<Rightarrow> sub_result \<Rightarrow> pyval" where
  "build_evidence project_data on_chain off_chain =
     PDict [(''on_chain'', serialize_tree (dict_of_sub_result on_chain)),
            (''off_chain'', serialize_tree (dict_of_sub_result off_chain)),
            (''project_data'',
               PDict [(''name'', PStr (name project_data)),
                      (''address'',
                         (case project_address project_data of
                            None \<Rightarrow> PNone | Some a \<Rightarrow> PStr a))])]"

text \<open>
  \<open>_generate_veritas_score\<close>; \<open>now\<close> is the clock reading for the timestamp. The one
  place it can raise is \<open>ai_analysis.get\<close>.
\<close>

definition generate_veritas_score ::
    "ProjectData \<Rightarrow> sub_result \<Rightarrow> sub_result \<Rightarrow> oracle_outcome \<Rightarrow> datetime
       \<Rightarrow> exn + VeritasScore" where
  "generate_veritas_score project_data on_chain off_chain outcome now =
     (let ev = build_evidence project_data on_chain off_chain;
          ai_analysis = ai_score_analysis ev outcome;
          overall = weighted_overall (score on_chain) (score off_chain)
      in case dict_get ai_analysis ''confidence'' (PFloat (7 / 10)) of
           Inl e \<Rightarrow> Inl e
         | Inr confidence \<Rightarrow>
             Inr \<lparr> overall_score = overall,
                   confidence_level = confidence,
                   on_chain_score = score on_chain,
                   off_chain_score = score off_chain,
                   score_risk_factors = risks on_chain @ risks off_chain,
                   positive_factors = factors on_chain @ factors off_chain,
                   analysis_timestamp = now,
                   evidence = ev \<rparr>)"

text \<open>
  \<open>audit_project\<close>, with the outcome of every call that leaves the process given as an
  argument: the three \<open>analyze_contract\<close> calls, the off-chain scan, the oracle, the clock.
\<close>

definition audit_project ::
    "string \<Rightarrow> string \<Rightarrow> exn + ContractAnalysis \<Rightarrow> exn + project_scan
       \<Rightarrow> exn + ContractAnalysis \<Rightarrow> exn + ContractAnalysis \<Rightarrow> oracle_outcome \<Rightarrow> datetime
       \<Rightarrow> exn + VeritasScore" where
  "audit_project project_identifier project_type r_basic scan r_detail r_score outcome now =
     (let project_data = collect_project_data project_identifier project_type r_basic scan;
          on_chain = analyze_on_chain_data project_data r_detail r_score;
          off_chain = analyze_off_chain_data project_data
      in generate_veritas_score project_data on_chain off_chain outcome now)"

text \<open>
  Two classifications of the oracle's outcome. It has failed when the call raised or the
  content was missing or not parseable. Its reply is an object when the content, if it
  parsed at all, parsed to a dictionary, which is what the request's
  \<open>response_format\<close> of \<open>json_object\<close> asks the service for.
\<close>

fun oracle_failed :: "oracle_outcome \<Rightarrow> bool" where
  "oracle_failed (Content_json v) = False"
| "oracle_failed _ = True"

fun is_dict :: "pyval \<Rightarrow> bool" where
  "is_dict (PDict _) = True"
| "is_dict _ = False"

fun reply_is_object :: "oracle_outcome \<Rightarrow> bool" where
  "reply_is_object (Content_json v) = is_dict v"
| "reply_is_object _ = True"

section \<open>The weighted combination\<close>

text \<open>
  Each binary64 operation of the weighted sum is off by at most half a unit in the last
  place, which is at most 128 units of \<open>2\<^sup>-\<^sup>5\<^sup>4\<close> for magnitudes below \<open>2\<^sup>7\<close>.
\<close>

lemma bit_length_le: "n < 2 ^ k \<Longrightarrow> bit_length n \<le> k"
proof (induction k arbitrary: n)
  case 0
  then show ?case by (simp add: bit_length.simps)
next
  case (Suc k)
  show ?case
  proof (cases "n \<le> 0")
    case True
    then show ?thesis by (simp add: bit_length.simps)
  next
    case False
    from Suc.prems have "n div 2 < 2 ^ k" by simp
    then have "bit_length (n div 2) \<le> k" by (rule Suc.IH)
    with False show ?thesis by (subst bit_length.simps) simp
  qed
qed

lemma round_to_53_error:
  assumes "0 \<le> n" and "n < 2 ^ 61"
  shows "\<bar>round_to_53 n - n\<bar> \<le> 128"
proof (cases "bit_length n \<le> 53")
  case True
  then show ?thesis by (simp add: round_to_53_def)
next
  case False
  define sh where "sh = bit_length n - 53"
  define h :: int where "h = 2 ^ (sh - 1)"
  from False have sh_pos: "0 < sh" by (simp add: sh_def)
  from assms(2) have "bit_length n \<le> 61" by (rule bit_length_le)
  then have sh_le: "sh \<le> 8" by (simp add: sh_def)
  have pow: "(2::int) ^ sh = 2 * h"
    using sh_pos by (simp add: h_def power_eq_if)
  have "sh - 1 \<le> 7" using sh_le by simp
  then have "(2::int) ^ (sh - 1) \<le> 2 ^ 7" by (intro power_increasing) simp_all
  then have h_le: "h \<le> 128" by (simp add: h_def)
  have h_pos: "0 < h" by (simp add: h_def)
  have h_alt: "2 ^ (sh - Suc 0) = h" by (simp add: h_def)
  define q where "q = n div (2 * h)"
  define r where "r = n mod (2 * h)"
  have n_eq: "n = q * (2 * h) + r" unfolding q_def r_def by (rule div_mult_mod_eq [symmetric])
  have r_bounds: "0 \<le> r" "r < 2 * h" using h_pos by (simp_all add: r_def)
  have "round_to_53 n =
      (if r < h then q else if h < r then q + 1 else if even q then q else q + 1) * (2 * h)"
    using False h_alt by (simp add: round_to_53_def Let_def sh_def[symmetric] pow q_def r_def)
  then show ?thesis
    using n_eq r_bounds h_le h_pos by (auto simp: algebra_simps split: if_splits)
qed


lemma round_binary64_error:
  assumes "0 \<le> n" and "n < 2 ^ 61"
  shows "\<bar>round_binary64 n - n\<bar> \<le> 128"
  using round_to_53_error [OF assms] assms(1) by (simp add: round_binary64_def)

lemma weighted_sum_error:
  assumes "1 \<le> s1" "s1 \<le> 100" "1 \<le> s2" "s2 \<le> 100"
  defines "x \<equiv> float_add (float_mul_int s1 on_chain_weight) (float_mul_int s2 off_chain_weight)"
  shows "\<bar>10 * x - (6 * s1 + 4 * s2) * 2 ^ 54\<bar> \<le> 4240"
proof -
  define a where "a = float_mul_int s1 on_chain_weight"
  define b where "b = float_mul_int s2 off_chain_weight"
  have pa: "0 \<le> s1 * 10808639105689190" "s1 * 10808639105689190 < 2 ^ 61"
    using assms(1,2) by simp_all
  have pb: "0 \<le> s2 * 7205759403792794" "s2 * 7205759403792794 < 2 ^ 61"
    using assms(3,4) by simp_all
  have ea: "\<bar>a - s1 * 10808639105689190\<bar> \<le> 128"
    unfolding a_def float_mul_int_def on_chain_weight_def
    by (rule round_binary64_error [OF pa])
  have eb: "\<bar>b - s2 * 7205759403792794\<bar> \<le> 128"
    unfolding b_def float_mul_int_def off_chain_weight_def
    by (rule round_binary64_error [OF pb])
  have pab: "0 \<le> a + b" "a + b < 2 ^ 61"
    using ea eb assms(1-4) by simp_all
  have ex: "\<bar>x - (a + b)\<bar> \<le> 128"
    unfolding x_def float_add_def a_def[symmetric] b_def[symmetric]
    by (rule round_binary64_error [OF pab])
  show ?thesis using ea eb ex assms(1-4) by simp
qed


lemma truncated_sum_bounds:
  assumes "1 \<le> s1" "s1 \<le> 100" "1 \<le> s2" "s2 \<le> 100"
  defines "t \<equiv> int_of_float
     (float_add (float_mul_int s1 on_chain_weight) (float_mul_int s2 off_chain_weight))"
  shows "(6 * s1 + 4 * s2) div 10 - 1 \<le> t" and "t \<le> (6 * s1 + 4 * s2) div 10"
    and "(6 * s1 + 4 * s2) mod 10 \<noteq> 0 \<Longrightarrow> t = (6 * s1 + 4 * s2) div 10"
proof -
  define x where
    "x = float_add (float_mul_int s1 on_chain_weight) (float_mul_int s2 off_chain_weight)"
  define k where "k = (6 * s1 + 4 * s2) div 10"
  define r where "r = (6 * s1 + 4 * s2) mod 10"
  define m where "m = x mod 18014398509481984"
  have err: "\<bar>10 * x - (6 * s1 + 4 * s2) * 18014398509481984\<bar> \<le> 4240"
    using weighted_sum_error [OF assms(1-4)] by (simp add: x_def)
  have E: "6 * s1 + 4 * s2 = 10 * k + r"
    unfolding k_def r_def by simp
  have r_bounds: "0 \<le> r" "r \<le> 9" by (simp_all add: r_def)
  have "(6 * s1 + 4 * s2) * 18014398509481984 - 4240 \<le> 10 * x"
    using err by (simp add: abs_le_iff)
  then have x_nonneg: "0 \<le> x" using assms(1-4) by simp
  then have t_eq: "t = x div 18014398509481984"
    by (simp add: t_def x_def[symmetric] int_of_float_def)
  have x_eq: "x = t * 18014398509481984 + m"
    unfolding t_eq m_def by (rule div_mult_mod_eq [symmetric])
  have m_bounds: "0 \<le> m" "m < 18014398509481984" by (simp_all add: m_def)
  have err': "\<bar>10 * (t * 18014398509481984 + m) - (10 * k + r) * 18014398509481984\<bar> \<le> 4240"
    using err unfolding E x_eq .
  have lo: "180143985094819840 * k + 18014398509481984 * r - 4240
            \<le> 180143985094819840 * t + 10 * m"
    using err' by (simp add: abs_le_iff algebra_simps)
  have hi: "180143985094819840 * t + 10 * m
            \<le> 180143985094819840 * k + 18014398509481984 * r + 4240"
    using err' by (simp add: abs_le_iff algebra_simps)
  show "(6 * s1 + 4 * s2) div 10 - 1 \<le> t"
    unfolding k_def[symmetric] using lo hi r_bounds m_bounds by linarith
  show "t \<le> (6 * s1 + 4 * s2) div 10"
    unfolding k_def[symmetric] using lo hi r_bounds m_bounds by linarith
  show "t = (6 * s1 + 4 * s2) div 10" if "(6 * s1 + 4 * s2) mod 10 \<noteq> 0"
  proof -
    from that r_bounds have "1 \<le> r" by (simp add: r_def)
    then show ?thesis
      unfolding k_def[symmetric] using lo hi r_bounds m_bounds by linarith
  qed
qed

text \<open>
  C1, as the code has it. For sub-scores \<open>s1\<close> and \<open>s2\<close> in 1..100 the combining step
  computes \<open>s1 * 0.6 + s2 * 0.4\<close> in binary64 and truncates it toward zero with
  \<open>int(...)\<close>, then clamps into 1..100; it does not round to nearest. The result lies in
  1..100; it is the floor of the exact value \<open>(6 s1 + 4 s2) / 10\<close> whenever that value is
  not an integer, and the exact value or one less when it is an integer. On-chain 100
  with off-chain 75 gives 90.
\<close>

theorem weighted_overall_truncates:
  assumes "1 \<le> s1" "s1 \<le> 100" "1 \<le> s2" "s2 \<le> 100"
  shows "1 \<le> weighted_overall s1 s2 \<and> weighted_overall s1 s2 \<le> 100
       \<and> (6 * s1 + 4 * s2) div 10 - 1 \<le> weighted_overall s1 s2
       \<and> weighted_overall s1 s2 \<le> (6 * s1 + 4 * s2) div 10
       \<and> ((6 * s1 + 4 * s2) mod 10 \<noteq> 0 \<longrightarrow>
            weighted_overall s1 s2 = (6 * s1 + 4 * s2) div 10)
       \<and> weighted_overall 100 75 = 90"
proof -
  define t where "t = int_of_float
     (float_add (float_mul_int s1 on_chain_weight) (float_mul_int s2 off_chain_weight))"
  have w: "weighted_overall s1 s2 = max 1 (min 100 t)"
    by (simp add: weighted_overall_def t_def)
  have k: "1 \<le> (6 * s1 + 4 * s2) div 10" "(6 * s1 + 4 * s2) div 10 \<le> 100"
    using assms by simp_all
  note b = truncated_sum_bounds [OF assms, folded t_def]
  have spec: "weighted_overall 100 75 = 90" by code_simp
  show ?thesis
    unfolding w using k b spec by auto
qed

text \<open>The theorem at \<open>s1 = 3\<close>, \<open>s2 = 4\<close>: the exact value is 3.4 and the score is 3.\<close>

theorem weighted_overall_truncates_witness:
  "(1::int) \<le> 3 \<and> (3::int) \<le> 100 \<and> (1::int) \<le> 4 \<and> (4::int) \<le> 100
   \<and> (6 * 3 + 4 * 4) mod 10 \<noteq> (0::int) \<and> weighted_overall 3 4 = 3"
  using weighted_overall_truncates [of 3 4] by simp

text \<open>
  C1 as stated fails at \<open>s1 = 2\<close>, \<open>s2 = 1\<close>: the exact value is 1.6, which rounds to 2,
  and the code yields 1.
\<close>

theorem weighted_overall_is_not_rounding:
  "weighted_overall 2 1 = 1 \<and> max 1 (min 100 (round ((2::real) * (6 / 10) + 1 * (4 / 10)))) = (2::int)"
proof
  show "weighted_overall 2 1 = 1" by code_simp
  have "(2::real) * (6 / 10) + 1 * (4 / 10) = 16 / 10" by simp
  then show "max 1 (min 100 (round ((2::real) * (6 / 10) + 1 * (4 / 10)))) = (2::int)"
    by (simp add: round_def)
qed

section \<open>The distribution score\<close>

text \<open>
  C3, as the code has it. The distribution score is a function of the holder analysis
  alone. Without holder data (no \<open>top_holders\<close> entry, or an empty list) it is 50.
  Otherwise, with \<open>p\<close> the percentage of the first holder: 20 for \<open>p > 50\<close>, 40 for
  \<open>30 < p \<le> 50\<close>, 60 for \<open>20 < p \<le> 30\<close>, 80 for \<open>10 < p \<le> 20\<close>, 95 for \<open>p \<le> 10\<close>. Every
  threshold is strict, so \<open>p = 50\<close> gives 40 and \<open>p = 10\<close> gives 95. The score never rises
  when \<open>p\<close> rises.
\<close>

theorem distribution_score_steps:
  "calculate_distribution_score (ha\<lparr>top_holders := None\<rparr>) = 50
   \<and> calculate_distribution_score (ha\<lparr>top_holders := Some []\<rparr>) = 50
   \<and> calculate_distribution_score (ha\<lparr>top_holders := Some (h # hs)\<rparr>) =
       (if 50 < percentage h then 20
        else if 30 < percentage h \<and> percentage h \<le> 50 then 40
        else if 20 < percentage h \<and> percentage h \<le> 30 then 60
        else if 10 < percentage h \<and> percentage h \<le> 20 then 80
        else 95)
   \<and> (percentage h \<le> 10 \<longrightarrow>
        calculate_distribution_score (ha\<lparr>top_holders := Some (h # hs)\<rparr>) = 95)
   \<and> calculate_distribution_score (ha\<lparr>top_holders := Some (h\<lparr>percentage := 50\<rparr> # hs)\<rparr>) = 40
   \<and> calculate_distribution_score (ha\<lparr>top_holders := Some (h\<lparr>percentage := 10\<rparr> # hs)\<rparr>) = 95
   \<and> (percentage h \<le> percentage h' \<longrightarrow>
        calculate_distribution_score (ha'\<lparr>top_holders := Some (h' # hs')\<rparr>)
        \<le> calculate_distribution_score (ha\<lparr>top_holders := Some (h # hs)\<rparr>))"
  by (simp add: calculate_distribution_score_def Let_def)

text \<open>
  The theorem at the placeholder holder list of the analyzer (top holder 15.5 percent,
  score 80) against a holder with 60 percent.
\<close>

theorem distribution_score_steps_witness:
  "calculate_distribution_score
     \<lparr>total_holders = 2500,
      top_holders = Some [\<lparr>holder_address = ''0x742d'', balance = 31 / 2, percentage = 31 / 2\<rparr>,
                          \<lparr>holder_address = ''0x1234'', balance = 51 / 5, percentage = 51 / 5\<rparr>]\<rparr> = 80
   \<and> (31 / 2 :: real) \<le> 60
   \<and> calculate_distribution_score
         \<lparr>total_holders = 10,
          top_holders = Some [\<lparr>holder_address = ''0xabcd'', balance = 60, percentage = 60\<rparr>]\<rparr>
       \<le> calculate_distribution_score
         \<lparr>total_holders = 2500,
          top_holders = Some [\<lparr>holder_address = ''0x742d'', balance = 31 / 2, percentage = 31 / 2\<rparr>,
                              \<lparr>holder_address = ''0x1234'', balance = 51 / 5, percentage = 51 / 5\<rparr>]\<rparr>"
  using distribution_score_steps
    [where ha = "\<lparr>total_holders = 2500, top_holders = None\<rparr>"
       and h = "\<lparr>holder_address = ''0x742d'', balance = 31 / 2, percentage = 31 / 2\<rparr>"
       and hs = "[\<lparr>holder_address = ''0x1234'', balance = 51 / 5, percentage = 51 / 5\<rparr>]"
       and h' = "\<lparr>holder_address = ''0xabcd'', balance = 60, percentage = 60\<rparr>"
       and ha' = "\<lparr>total_holders = 10, top_holders = None\<rparr>" and hs' = "[]"]
  by simp

text \<open>C3 as stated gives 80 at \<open>p = 10\<close>; the code gives 95 there.\<close>

theorem distribution_score_at_ten:
  "calculate_distribution_score
     \<lparr>total_holders = 1,
      top_holders = Some [\<lparr>holder_address = ''0x742d'', balance = 10, percentage = 10\<rparr>]\<rparr> = 95
   \<and> calculate_distribution_score
     \<lparr>total_holders = 1,
      top_holders = Some [\<lparr>holder_address = ''0x742d'', balance = 10, percentage = 10\<rparr>]\<rparr> \<noteq> 80"
  by (simp add: calculate_distribution_score_def)

section \<open>The on-chain sub-score\<close>

lemma quick_contract_score_sum:
  "quick_contract_score (Inr a) =
     50 + (if is_verified a then 20 else 0)
        + (if transaction_count a > 100 then 10 else 0)
        + (if unique_interactors a > 50 then 10 else 0)
        + (if risk_factors a = [] then 10 else 0)"
  by (simp add: quick_contract_score_def Let_def)

text \<open>
  C2. For an analysis \<open>a\<close> that the provider returned, the on-chain score is 50 plus 20 if
  \<open>a\<close> is verified, plus 10 if its transaction count exceeds 100, plus 10 if its unique
  interactors exceed 50, plus 10 if its list of risk factors is empty, clamped into
  1..100; each bonus is worth the same whatever the other conditions are, and the sum
  does not depend on their order. It is the score of the on-chain sub-result of a project
  with an address. For a verified analysis with 1500 transactions, 450 interactors and no
  risk factor the score is 100 and no risk is added.
\<close>

theorem on_chain_score_additive:
  assumes "project_address pd = Some addr" and "addr \<noteq> []"
  shows "quick_contract_score (Inr a) =
           min 100 (max 1
             (50 + (if is_verified a then 20 else 0)
                 + (if transaction_count a > 100 then 10 else 0)
                 + (if unique_interactors a > 50 then 10 else 0)
                 + (if risk_factors a = [] then 10 else 0)))
       \<and> score (analyze_on_chain_data pd (Inr d) (Inr a)) = quick_contract_score (Inr a)
       \<and> (is_verified a \<and> transaction_count a = 1500 \<and> unique_interactors a = 450
            \<and> risk_factors a = [] \<longrightarrow>
            score (analyze_on_chain_data pd (Inr a) (Inr a)) = 100
            \<and> risks (analyze_on_chain_data pd (Inr a) (Inr a)) = [])
       \<and> quick_contract_score (Inr (a\<lparr>is_verified := True\<rparr>))
           = quick_contract_score (Inr (a\<lparr>is_verified := False\<rparr>)) + 20
       \<and> (100 < n \<and> m \<le> 100 \<longrightarrow>
            quick_contract_score (Inr (a\<lparr>transaction_count := n\<rparr>))
            = quick_contract_score (Inr (a\<lparr>transaction_count := m\<rparr>)) + 10)
       \<and> (50 < n \<and> m \<le> 50 \<longrightarrow>
            quick_contract_score (Inr (a\<lparr>unique_interactors := n\<rparr>))
            = quick_contract_score (Inr (a\<lparr>unique_interactors := m\<rparr>)) + 10)
       \<and> quick_contract_score (Inr (a\<lparr>risk_factors := []\<rparr>))
           = quick_contract_score (Inr (a\<lparr>risk_factors := x # xs\<rparr>)) + 10"
  using assms
  by (simp add: quick_contract_score_sum analyze_on_chain_data_def Let_def)

text \<open>The theorem at the analysis of the end-to-end scenario.\<close>

theorem on_chain_score_additive_witness:
  "score (analyze_on_chain_data
      \<lparr>name = ''Contract_0x123456'',
       project_address = Some ''0x1234567890123456789012345678901234567890'',
       website = None, social_links = [], on_chain_data = None, off_chain_data = None\<rparr>
      (Inr \<lparr>address = ''0x1234567890123456789012345678901234567890'', is_verified = True,
            creation_date = None, creator_address = [], transaction_count = 1500,
            unique_interactors = 450, total_value_locked = 2500000, proxy_pattern = False,
            ownership_analysis = [], security_indicators = [], risk_factors = []\<rparr>)
      (Inr \<lparr>address = ''0x1234567890123456789012345678901234567890'', is_verified = True,
            creation_date = None, creator_address = [], transaction_count = 1500,
            unique_interactors = 450, total_value_locked = 2500000, proxy_pattern = False,
            ownership_analysis = [], security_indicators = [], risk_factors = []\<rparr>)) = 100
   \<and> risks (analyze_on_chain_data
      \<lparr>name = ''Contract_0x123456'',
       project_address = Some ''0x1234567890123456789012345678901234567890'',
       website = None, social_links = [], on_chain_data = None, off_chain_data = None\<rparr>
      (Inr \<lparr>address = ''0x1234567890123456789012345678901234567890'', is_verified = True,
            creation_date = None, creator_address = [], transaction_count = 1500,
            unique_interactors = 450, total_value_locked = 2500000, proxy_pattern = False,
            ownership_analysis = [], security_indicators = [], risk_factors = []\<rparr>)
      (Inr \<lparr>address = ''0x1234567890123456789012345678901234567890'', is_verified = True,
            creation_date = None, creator_address = [], transaction_count = 1500,
            unique_interactors = 450, total_value_locked = 2500000, proxy_pattern = False,
            ownership_analysis = [], security_indicators = [], risk_factors = []\<rparr>)) = []"
  using on_chain_score_additive
    [where pd = "\<lparr>name = ''Contract_0x123456'',
       project_address = Some ''0x1234567890123456789012345678901234567890'',
       website = None, social_links = [], on_chain_data = None, off_chain_data = None\<rparr>"
       and addr = "''0x1234567890123456789012345678901234567890''"
       and a = "\<lparr>address = ''0x1234567890123456789012345678901234567890'', is_verified = True,
            creation_date = None, creator_address = [], transaction_count = 1500,
            unique_interactors = 450, total_value_locked = 2500000, proxy_pattern = False,
            ownership_analysis = [], security_indicators = [], risk_factors = []\<rparr>"]
  by simp


text \<open>
  When the provider answers the agent's own call and fails inside
  \<open>quick_contract_score\<close>, the score is the 50 of that function's \<open>except\<close> clause.
\<close>

lemma score_call_failure:
  "project_address pd = Some addr \<Longrightarrow> addr \<noteq> [] \<Longrightarrow>
   score (analyze_on_chain_data pd (Inr d) (Inl e)) = 50"
  by (simp add: analyze_on_chain_data_def quick_contract_score_def Let_def)

section \<open>When the aggregator returns\<close>

lemma ai_score_analysis_is_dict:
  "reply_is_object outcome \<Longrightarrow> is_dict (ai_score_analysis ev outcome)"
  by (cases outcome) (auto simp: ai_score_analysis_def degraded_judgment_def split: sum.splits)

lemma dict_get_of_dict:
  "is_dict d \<Longrightarrow> \<exists>v. dict_get d k dflt = Inr v"
  by (cases d) (simp_all add: dict_get_def)

lemma generate_veritas_score_returns:
  assumes "reply_is_object outcome"
  shows "\<exists>c. generate_veritas_score pd on_chain off_chain outcome now =
           Inr \<lparr> overall_score = weighted_overall (score on_chain) (score off_chain),
                 confidence_level = c,
                 on_chain_score = score on_chain,
                 off_chain_score = score off_chain,
                 score_risk_factors = risks on_chain @ risks off_chain,
                 positive_factors = factors on_chain @ factors off_chain,
                 analysis_timestamp = now,
                 evidence = build_evidence pd on_chain off_chain \<rparr>"
proof -
  obtain c where
    "dict_get (ai_score_analysis (build_evidence pd on_chain off_chain) outcome)
       ''confidence'' (PFloat (7 / 10)) = Inr c"
    using dict_get_of_dict [OF ai_score_analysis_is_dict [OF assms]] by blast
  then show ?thesis
    by (simp add: generate_veritas_score_def Let_def)
qed

section \<open>The degraded paths of the on-chain analysis\<close>

text \<open>
  C5. A project whose identifier gave no address gets the on-chain sub-result with score
  30, no positive factor and the single risk \<open>No contract address provided\<close>, whatever the
  provider would have answered; the sub-result is returned, not raised, and an audit
  whose oracle reply is an object returns a score record carrying the 30.
\<close>

theorem no_address_sub_result:
  assumes "project_address pd = None"
  shows "score (analyze_on_chain_data pd r_detail r_score) = 30
       \<and> factors (analyze_on_chain_data pd r_detail r_score) = []
       \<and> risks (analyze_on_chain_data pd r_detail r_score) = [''No contract address provided'']
       \<and> (reply_is_object outcome \<longrightarrow>
            (\<exists>vs. generate_veritas_score pd (analyze_on_chain_data pd r_detail r_score)
                     (analyze_off_chain_data pd) outcome now = Inr vs
                  \<and> on_chain_score vs = 30))"
proof -
  have "\<exists>vs. generate_veritas_score pd (analyze_on_chain_data pd r_detail r_score)
                (analyze_off_chain_data pd) outcome now = Inr vs
             \<and> on_chain_score vs = score (analyze_on_chain_data pd r_detail r_score)"
    if "reply_is_object outcome"
    using generate_veritas_score_returns [OF that, of pd
        "analyze_on_chain_data pd r_detail r_score" "analyze_off_chain_data pd" now]
    by auto
  moreover have "analyze_on_chain_data pd r_detail r_score =
      \<lparr> score = 30, factors = [], risks = [''No contract address provided''],
        analysis = Some (Analysis_text
          ''Cannot perform on-chain analysis without contract address''),
        value_locked = None \<rparr>"
    using assms by (simp add: analyze_on_chain_data_def)
  ultimately show ?thesis by simp
qed


text \<open>The theorem at the ENS name \<open>uniswap.eth\<close>, with an oracle that returned nothing.\<close>

theorem no_address_sub_result_witness:
  "risks (analyze_on_chain_data
      \<lparr>name = ''uniswap.eth'', project_address = None, website = None, social_links = [],
       on_chain_data = None, off_chain_data = None\<rparr>
      (Inl (ValueError ''Invalid address format: uniswap.eth''))
      (Inl (ValueError ''Invalid address format: uniswap.eth'')))
     = [''No contract address provided'']
   \<and> (\<exists>vs. generate_veritas_score
         \<lparr>name = ''uniswap.eth'', project_address = None, website = None, social_links = [],
          on_chain_data = None, off_chain_data = None\<rparr>
         (analyze_on_chain_data
            \<lparr>name = ''uniswap.eth'', project_address = None, website = None,
             social_links = [], on_chain_data = None, off_chain_data = None\<rparr>
            (Inl (ValueError ''Invalid address format: uniswap.eth''))
            (Inl (ValueError ''Invalid address format: uniswap.eth'')))
         (analyze_off_chain_data
            \<lparr>name = ''uniswap.eth'', project_address = None, website = None,
             social_links = [], on_chain_data = None, off_chain_data = None\<rparr>)
         Content_empty 0 = Inr vs
       \<and> on_chain_score vs = 30)"
  using no_address_sub_result
    [where pd = "\<lparr>name = ''uniswap.eth'', project_address = None, website = None,
                  social_links = [], on_chain_data = None, off_chain_data = None\<rparr>"
       and r_detail = "Inl (ValueError ''Invalid address format: uniswap.eth'')"
       and r_score = "Inl (ValueError ''Invalid address format: uniswap.eth'')"
       and outcome = Content_empty and now = 0]
  by simp

section \<open>Classifying the identifier\<close>

text \<open>
  C10. The identifier is taken for a contract address exactly when it has 42 characters
  and starts with \<open>0x\<close>; nothing else about it is checked. Every other identifier leaves
  the project without an address, and its on-chain analysis is the no-address sub-result
  with score 30, whatever the provider would answer.
\<close>

theorem identifier_classification:
  "project_address (collect_project_data ident pt r_basic scan) =
     (if length ident = 42 \<and> take 2 ident = ''0x'' then Some ident else None)
   \<and> (project_address (collect_project_data ident pt r_basic scan) \<noteq> None
        \<longleftrightarrow> length ident = 42 \<and> take 2 ident = ''0x'')
   \<and> (\<not> (length ident = 42 \<and> take 2 ident = ''0x'') \<longrightarrow>
        analyze_on_chain_data (collect_project_data ident pt r_basic scan) r_detail r_score =
          \<lparr> score = 30, factors = [], risks = [''No contract address provided''],
            analysis = Some (Analysis_text
              ''Cannot perform on-chain analysis without contract address''),
            value_locked = None \<rparr>)"
  by (auto simp: collect_project_data_def analyze_on_chain_data_def Let_def)

text \<open>
  The theorem at an ENS name, which gets no address, and at 42 characters that start with
  \<open>0x\<close> and are no hexadecimal number, which are taken for an address.
\<close>

theorem identifier_classification_witness:
  "score (analyze_on_chain_data
      (collect_project_data ''uniswap.eth'' ''contract'' (Inl (OtherError [])) (Inl (OtherError [])))
      (Inl (OtherError [])) (Inl (OtherError []))) = 30
   \<and> project_address
       (collect_project_data ''0xZZZZZZZZZZZZZZZZZZZZZZZZZZZZZZZZZZZZZZZZ'' ''contract''
          (Inl (OtherError [])) (Inl (OtherError [])))
     = Some ''0xZZZZZZZZZZZZZZZZZZZZZZZZZZZZZZZZZZZZZZZZ''"
  using identifier_classification
    [where ident = "''uniswap.eth''" and pt = "''contract''" and r_basic = "Inl (OtherError [])"
       and scan = "Inl (OtherError [])" and r_detail = "Inl (OtherError [])"
       and r_score = "Inl (OtherError [])"]
    identifier_classification
    [where ident = "''0xZZZZZZZZZZZZZZZZZZZZZZZZZZZZZZZZZZZZZZZZ''" and pt = "''contract''"
       and r_basic = "Inl (OtherError [])" and scan = "Inl (OtherError [])"]
  by simp

section \<open>The factor lists of the final score\<close>

lemma generate_veritas_score_lists:
  assumes "generate_veritas_score pd on_chain off_chain outcome now = Inr vs"
  shows "score_risk_factors vs = risks on_chain @ risks off_chain"
    and "positive_factors vs = factors on_chain @ factors off_chain"
  using assms
  by (auto simp: generate_veritas_score_def Let_def split: sum.splits)

text \<open>
  C8. Whenever the aggregator returns a score record, and it does for every oracle reply
  that is an object, the record's risk factors are the on-chain risks followed by the
  off-chain risks and its positive factors the on-chain factors followed by the off-chain
  factors: plain concatenation, every element kept in place, duplicates included.
\<close>

theorem factor_lists_concatenate:
  "(reply_is_object outcome \<longrightarrow>
      (\<exists>vs. generate_veritas_score pd on_chain off_chain outcome now = Inr vs))
   \<and> (\<forall>vs. generate_veritas_score pd on_chain off_chain outcome now = Inr vs \<longrightarrow>
          score_risk_factors vs = risks on_chain @ risks off_chain
        \<and> positive_factors vs = factors on_chain @ factors off_chain)"
  using generate_veritas_score_returns [of outcome pd on_chain off_chain now]
    generate_veritas_score_lists [of pd on_chain off_chain outcome now]
  by blast

text \<open>
  The theorem at an on-chain sub-result whose risk and factor repeat those of the
  off-chain placeholder: both copies are in the final lists.
\<close>

theorem factor_lists_concatenate_witness:
  "\<exists>vs. generate_veritas_score
       \<lparr>name = ''Sample'', project_address = None, website = None, social_links = [],
        on_chain_data = None, off_chain_data = None\<rparr>
       \<lparr>score = 50, factors = [''Active community''], risks = [''Limited team information''],
        analysis = None, value_locked = None\<rparr>
       (analyze_off_chain_data
          \<lparr>name = ''Sample'', project_address = None, website = None, social_links = [],
           on_chain_data = None, off_chain_data = None\<rparr>)
       No_choices 0 = Inr vs
     \<and> score_risk_factors vs = [''Limited team information'', ''Limited team information'']
     \<and> positive_factors vs =
         [''Active community'', ''Positive media coverage'', ''Active community'']"
  using factor_lists_concatenate
    [where outcome = No_choices
       and pd = "\<lparr>name = ''Sample'', project_address = None, website = None,
                  social_links = [], on_chain_data = None, off_chain_data = None\<rparr>"
       and on_chain = "\<lparr>score = 50, factors = [''Active community''],
                        risks = [''Limited team information''],
                        analysis = None, value_locked = None\<rparr>"
       and off_chain = "analyze_off_chain_data
          \<lparr>name = ''Sample'', project_address = None, website = None, social_links = [],
           on_chain_data = None, off_chain_data = None\<rparr>"
       and now = 0]
  by (auto simp: analyze_off_chain_data_def)

section \<open>The off-chain sub-score\<close>

text \<open>
  C7. The off-chain scorer returns the same sub-result, with score 75, for every project
  data. So the score lies in 1..100; the score for one project data is never lower than
  the score for another, in particular when the two differ only in that the first has
  verified team members, dominant positive sentiment or no red flags; and a project whose
  off-chain scan failed or is missing gets the same fixed score, not an error.
\<close>

theorem off_chain_score_fixed:
  "1 \<le> score (analyze_off_chain_data pd) \<and> score (analyze_off_chain_data pd) \<le> 100
   \<and> score (analyze_off_chain_data pd') \<le> score (analyze_off_chain_data pd)
   \<and> score (analyze_off_chain_data
        (pd\<lparr>off_chain_data := Some (s\<lparr>team_info := (team_info s)\<lparr>verified_members := 0\<rparr>\<rparr>)\<rparr>))
       \<le> score (analyze_off_chain_data
        (pd\<lparr>off_chain_data := Some (s\<lparr>team_info := (team_info s)\<lparr>verified_members := n\<rparr>\<rparr>)\<rparr>))
   \<and> score (analyze_off_chain_data
        (pd\<lparr>off_chain_data := Some (s\<lparr>sentiment := (sentiment s)\<lparr>overall_sentiment := l\<rparr>\<rparr>)\<rparr>))
       \<le> score (analyze_off_chain_data
        (pd\<lparr>off_chain_data :=
           Some (s\<lparr>sentiment := (sentiment s)\<lparr>overall_sentiment := ''positive''\<rparr>\<rparr>)\<rparr>))
   \<and> score (analyze_off_chain_data
        (pd\<lparr>off_chain_data := Some (s\<lparr>sentiment := (sentiment s)\<lparr>red_flags := fs\<rparr>\<rparr>)\<rparr>))
       \<le> score (analyze_off_chain_data
        (pd\<lparr>off_chain_data := Some (s\<lparr>sentiment := (sentiment s)\<lparr>red_flags := []\<rparr>\<rparr>)\<rparr>))
   \<and> score (analyze_off_chain_data (pd\<lparr>off_chain_data := None\<rparr>)) = 75
   \<and> score (analyze_off_chain_data
        (collect_project_data ident pt r_basic (Inl e))) = 75"
  by (simp add: analyze_off_chain_data_def)

section \<open>The evidence document\<close>

text \<open>
  The normalized form of a sub-result's dictionary holds integers, floats, strings, lists
  of strings and dictionaries of these, so it survives the JSON round trip, and so does
  the evidence document.
\<close>

lemma sequence_results_strs:
  "sequence_results (map json_loads_dumps (map PStr xs)) = Inr (map PStr xs)"
  by (induction xs) simp_all

lemma json_loads_dumps_str_list:
  "json_loads_dumps (str_list xs) = Inr (str_list xs)"
  by (simp add: str_list_def sequence_results_strs del: map_map)

lemma serialize_str_list:
  "serialize_tree (str_list xs) = str_list xs"
  by (simp add: str_list_def)

lemma normalized_sub_result_round_trip:
  "json_loads_dumps (serialize_tree (dict_of_sub_result r))
     = Inr (serialize_tree (dict_of_sub_result r))"
  by (simp add: dict_of_sub_result_def object_of_analysis_def serialize_str_list
      json_loads_dumps_str_list split: option.splits analysis_entry.splits)

lemma evidence_round_trip:
  "json_loads_dumps (build_evidence pd on_chain off_chain)
     = Inr (build_evidence pd on_chain off_chain)"
  by (simp add: build_evidence_def normalized_sub_result_round_trip split: option.splits)


text \<open>
  Without the normalizer the on-chain dictionary of a successful analysis is not
  serializable: it holds the \<open>ContractAnalysis\<close> instance.
\<close>

lemma raw_sub_result_not_serializable:
  "analysis r = Some (Analysis_object a) \<Longrightarrow>
   json_loads_dumps (dict_of_sub_result r) = Inl (not_serializable ''ContractAnalysis'')"
  by (simp add: dict_of_sub_result_def object_of_analysis_def json_loads_dumps_str_list)

section \<open>The normalizer on a store\<close>


lemma sequence_results_Inl:
  "sequence_results (map f xs) = Inl e \<Longrightarrow> \<exists>x \<in> set xs. f x = Inl e"
proof (induction xs)
  case Nil
  then show ?case by simp
next
  case (Cons x xs)
  then show ?case by (cases "f x") (auto split: sum.splits)
qed



text \<open>The normalizer raises nothing but \<open>RecursionError\<close>.\<close>

lemma serialize_fails_only_by_depth:
  "serialize_analysis_data d s r = Inl e \<Longrightarrow>
   e = RecursionError ''maximum recursion depth exceeded''"
proof (induction d arbitrary: r e)
  case 0
  then show ?case by simp
next
  case (Suc d)
  show ?case
  proof (cases "lookup s r")
    case None
    with Suc.prems show ?thesis by simp
  next
    case (Some c)
    show ?thesis
    proof (cases c)
      case (CList rs)
      with Suc.prems Some obtain x where "serialize_analysis_data d s x = Inl e"
        by (auto split: sum.splits dest!: sequence_results_Inl)
      then show ?thesis by (rule Suc.IH)
    next
      case (CDict items)
      with Suc.prems Some obtain x where "serialize_analysis_data d s x = Inl e"
        by (auto split: sum.splits if_splits dest!: sequence_results_Inl)
      then show ?thesis by (rule Suc.IH)
    next
      case (CInstance cl attrs)
      with Suc.prems Some obtain x where "serialize_analysis_data d s x = Inl e"
        by (auto split: sum.splits dest!: sequence_results_Inl)
      then show ?thesis by (rule Suc.IH)
    qed (use Suc.prems Some in simp_all)
  qed
qed













text \<open>
  The member \<open>ChainType.ETHEREUM\<close> reaches itself: its \<open>__objclass__\<close> is the class, whose
  member map holds the member. The normalizer runs out of room on the member, on the
  class and on the map.
\<close>

lemma enum_member_overflows:
  assumes "r = 2 \<or> r = 3 \<or> r = 4"
  shows "serialize_analysis_data d
     [CStr ''ethereum'', CStr ''ETHEREUM'',
      CInstance ''ChainType'' [(''_value_'', 0), (''_name_'', 1), (''__objclass__'', 3)],
      CInstance ''EnumType'' [(''_member_map_'', 4)],
      CDict [(''ETHEREUM'', 2)]] r
   = Inl (RecursionError ''maximum recursion depth exceeded'')"
  using assms
proof (induction d arbitrary: r)
  case 0
  then show ?case by simp
next
  case (Suc d)
  let ?s = "[CStr ''ethereum'', CStr ''ETHEREUM'',
      CInstance ''ChainType'' [(''_value_'', 0), (''_name_'', 1), (''__objclass__'', 3)],
      CInstance ''EnumType'' [(''_member_map_'', 4)],
      CDict [(''ETHEREUM'', 2)]]"
  have f: "serialize_analysis_data d ?s k = Inl (RecursionError ''maximum recursion depth exceeded'')
           \<or> (\<exists>n. serialize_analysis_data d ?s k = Inr n)" for k
    using serialize_fails_only_by_depth [of d ?s k]
    by (cases "serialize_analysis_data d ?s k") auto
  from Suc.prems consider "r = 2" | "r = 3" | "r = 4" by blast
  then show ?case
  proof cases
    case 1
    with f [of 0] f [of 1] Suc.IH [of 3] show ?thesis
      by (subst serialize_analysis_data.simps(2))
        (auto simp: lookup_def simp del: serialize_analysis_data.simps)
  next
    case 2
    with Suc.IH [of 4] show ?thesis
      by (subst serialize_analysis_data.simps(2))
        (auto simp: lookup_def simp del: serialize_analysis_data.simps)
  next
    case 3
    with Suc.IH [of 2] show ?thesis
      by (subst serialize_analysis_data.simps(2))
        (auto simp: lookup_def simp del: serialize_analysis_data.simps)
  qed
qed




section \<open>The judgment oracle adapter\<close>

lemma ai_score_analysis_of_evidence:
  "ai_score_analysis (build_evidence pd on_chain off_chain) outcome =
     (case outcome of Content_json v \<Rightarrow> v | _ \<Rightarrow> degraded_judgment)"
  by (simp add: ai_score_analysis_def evidence_round_trip split: oracle_outcome.splits)

text \<open>
  C4, as the code has it. When the oracle call raises, the response has no choice, the
  content is missing or empty, or the content is not parseable JSON,
  \<open>_ai_score_analysis\<close> returns the fixed degraded judgment, whose confidence is 0.5 and
  whose risk level is \<open>medium\<close>, and the aggregator and the audit return a full score
  record with confidence level exactly 0.5. Content that parses is returned as it is: when
  it is an object, the audit returns a full score record whose confidence level is the
  object's \<open>confidence\<close> entry, or 0.7 when the object has none.
\<close>

theorem oracle_reply_confidence:
  "(oracle_failed outcome \<longrightarrow>
      ai_score_analysis ev outcome = degraded_judgment
      \<and> (\<exists>vs. generate_veritas_score pd on_chain off_chain outcome now = Inr vs
             \<and> confidence_level vs = PFloat (1 / 2)
             \<and> overall_score vs = weighted_overall (score on_chain) (score off_chain)
             \<and> evidence vs = build_evidence pd on_chain off_chain)
      \<and> (\<exists>vs. audit_project ident pt r_basic scan r_detail r_score outcome now = Inr vs
             \<and> confidence_level vs = PFloat (1 / 2)))
   \<and> dict_get degraded_judgment ''confidence'' (PFloat (7 / 10)) = Inr (PFloat (1 / 2))
   \<and> dict_get degraded_judgment ''risk_level'' PNone = Inr (PStr ''medium'')
   \<and> (\<exists>vs. audit_project ident pt r_basic scan r_detail r_score
               (Content_json (PDict items)) now = Inr vs
          \<and> confidence_level vs =
              (case map_of items ''confidence'' of Some c \<Rightarrow> c | None \<Rightarrow> PFloat (7 / 10)))"
proof -
  have deg: "ai_score_analysis ev' outcome = degraded_judgment" if "oracle_failed outcome" for ev'
    using that by (cases outcome) (simp_all add: ai_score_analysis_def split: sum.splits)
  have conf: "dict_get degraded_judgment ''confidence'' (PFloat (7 / 10)) = Inr (PFloat (1 / 2))"
    by (simp add: dict_get_def degraded_judgment_def)
  have lvl: "dict_get degraded_judgment ''risk_level'' PNone = Inr (PStr ''medium'')"
    by (simp add: dict_get_def degraded_judgment_def)
  have gen: "\<exists>vs. generate_veritas_score pd' on' off' outcome now = Inr vs
              \<and> confidence_level vs = PFloat (1 / 2)
              \<and> overall_score vs = weighted_overall (score on') (score off')
              \<and> evidence vs = build_evidence pd' on' off'"
    if "oracle_failed outcome" for pd' on' off'
    by (simp add: generate_veritas_score_def Let_def deg [OF that] conf)
  have aud: "\<exists>vs. audit_project ident pt r_basic scan r_detail r_score outcome now = Inr vs
              \<and> confidence_level vs = PFloat (1 / 2)"
    if "oracle_failed outcome"
    unfolding audit_project_def Let_def using gen [OF that] by blast
  have obj: "\<exists>vs. audit_project ident pt r_basic scan r_detail r_score
               (Content_json (PDict items)) now = Inr vs
          \<and> confidence_level vs =
              (case map_of items ''confidence'' of Some c \<Rightarrow> c | None \<Rightarrow> PFloat (7 / 10))"
    by (simp add: audit_project_def generate_veritas_score_def Let_def
        ai_score_analysis_of_evidence dict_get_def)
  from deg gen aud conf lvl obj show ?thesis by blast
qed

text \<open>
  The theorem at an oracle whose content was not parseable, for the demo address, and at
  a reply that states its confidence.
\<close>

theorem oracle_reply_confidence_witness:
  "oracle_failed (Content_unparseable ''I cannot answer in JSON'')
   \<and> (\<exists>vs. audit_project ''0x1234567890123456789012345678901234567890'' ''contract''
         (Inl (OtherError ''timeout'')) (Inl (OtherError ''timeout''))
         (Inl (OtherError ''timeout'')) (Inl (OtherError ''timeout''))
         (Content_unparseable ''I cannot answer in JSON'') 0 = Inr vs
       \<and> confidence_level vs = PFloat (1 / 2))
   \<and> (\<exists>vs. audit_project ''0x1234567890123456789012345678901234567890'' ''contract''
         (Inl (OtherError ''timeout'')) (Inl (OtherError ''timeout''))
         (Inl (OtherError ''timeout'')) (Inl (OtherError ''timeout''))
         (Content_json (PDict [(''confidence'', PFloat (9 / 10)), (''risk_level'', PStr ''low'')]))
         0 = Inr vs
       \<and> confidence_level vs = PFloat (9 / 10))"
  using oracle_reply_confidence
    [where outcome = "Content_unparseable ''I cannot answer in JSON''"
       and ident = "''0x1234567890123456789012345678901234567890''" and pt = "''contract''"
       and r_basic = "Inl (OtherError ''timeout'')" and scan = "Inl (OtherError ''timeout'')"
       and r_detail = "Inl (OtherError ''timeout'')" and r_score = "Inl (OtherError ''timeout'')"
       and now = 0
       and items = "[(''confidence'', PFloat (9 / 10)), (''risk_level'', PStr ''low'')]"]
  by simp

text \<open>
  C4 as stated gives confidence 0.5 for every malformed reply. The reply \<open>{}\<close>, an object
  without any field of a judgment, gives 0.7, the default of \<open>ai_analysis.get\<close>.
\<close>

theorem empty_object_reply_confidence:
  "map_sum str_exn confidence_level
     (audit_project ''0x1234567890123456789012345678901234567890'' ''contract''
        (Inl (OtherError ''timeout'')) (Inl (OtherError ''timeout''))
        (Inl (OtherError ''timeout'')) (Inl (OtherError ''timeout''))
        (Content_json (PDict [])) 0)
   = Inr (PFloat (7 / 10))
   \<and> PFloat (7 / 10) \<noteq> PFloat (1 / 2)"
  by (simp add: audit_project_def generate_veritas_score_def Let_def
      ai_score_analysis_of_evidence dict_get_def)

text \<open>
  A reply that parses to a value that is no object is returned by the adapter as well,
  and \<open>ai_analysis.get\<close> then raises in the aggregator, out of the audit.
\<close>

lemma parsed_reply_not_an_object:
  assumes "\<not> is_dict v"
  shows "\<exists>m. audit_project ident pt r_basic scan r_detail r_score (Content_json v) now
           = Inl (AttributeError m)"
  using assms
  by (cases v) (simp_all add: audit_project_def generate_veritas_score_def Let_def
      ai_score_analysis_of_evidence dict_get_def)

section \<open>A provider that fails\<close>

text \<open>
  C6, as the code has it. For a project with an address, when the agent's own
  \<open>analyze_contract\<close> call raises \<open>e\<close>, the on-chain sub-result has score 20, no positive
  factor and the single risk \<open>Analysis failed: \<close> followed by \<open>str(e)\<close>. When that call
  returns an analysis and the provider raises only inside \<open>quick_contract_score\<close>, that
  function catches the failure: the sub-result is the one of the analysis, with score 50.
  In both cases the audit goes on: with an oracle reply that is an object or a failure it
  returns a score record carrying the sub-score.
\<close>

theorem provider_failure_sub_result:
  assumes "project_address pd = Some addr" and "addr \<noteq> []"
  shows "score (analyze_on_chain_data pd (Inl e) r_score) = 20
       \<and> factors (analyze_on_chain_data pd (Inl e) r_score) = []
       \<and> risks (analyze_on_chain_data pd (Inl e) r_score) = [''Analysis failed: '' @ str_exn e]
       \<and> analyze_on_chain_data pd (Inr a) (Inl e)
           = (analyze_on_chain_data pd (Inr a) (Inr a))\<lparr>score := 50\<rparr>
       \<and> (reply_is_object outcome \<longrightarrow>
            (\<exists>vs. generate_veritas_score pd (analyze_on_chain_data pd (Inl e) r_score)
                     (analyze_off_chain_data pd) outcome now = Inr vs
                  \<and> on_chain_score vs = 20
                  \<and> score_risk_factors vs =
                      [''Analysis failed: '' @ str_exn e, ''Limited team information''])
          \<and> (\<exists>vs. generate_veritas_score pd (analyze_on_chain_data pd (Inr a) (Inl e))
                     (analyze_off_chain_data pd) outcome now = Inr vs
                  \<and> on_chain_score vs = 50))"
proof -
  have sub: "analyze_on_chain_data pd (Inl e) r_score =
      \<lparr> score = 20, factors = [], risks = [''Analysis failed: '' @ str_exn e],
        analysis = Some (Analysis_text ''Error during on-chain analysis''),
        value_locked = None \<rparr>"
    using assms by (simp add: analyze_on_chain_data_def)
  have fifty: "analyze_on_chain_data pd (Inr a) (Inl e)
           = (analyze_on_chain_data pd (Inr a) (Inr a))\<lparr>score := 50\<rparr>"
    using assms by (simp add: analyze_on_chain_data_def quick_contract_score_def Let_def)
  have ret: "\<exists>vs. generate_veritas_score pd on_chain (analyze_off_chain_data pd) outcome now
                = Inr vs
             \<and> on_chain_score vs = score on_chain
             \<and> score_risk_factors vs = risks on_chain @ risks (analyze_off_chain_data pd)"
    if "reply_is_object outcome" for on_chain
    using generate_veritas_score_returns [OF that, of pd on_chain "analyze_off_chain_data pd" now]
    by auto
  show ?thesis
    using ret [of "analyze_on_chain_data pd (Inl e) r_score"]
      ret [of "analyze_on_chain_data pd (Inr a) (Inl e)"]
    by (auto simp: sub fifty analyze_off_chain_data_def)
qed

text \<open>
  The theorem at the demo address, with a web3 library that rejects it and an oracle whose
  call raised: the risk carries the message of \<open>analyze_contract\<close>.
\<close>

theorem provider_failure_sub_result_witness:
  "risks (analyze_on_chain_data
      (collect_project_data ''0x1234567890123456789012345678901234567890'' ''contract''
         (Inl (OtherError ''timeout'')) (Inl (OtherError ''timeout'')))
      (analyze_contract
         \<lparr>connected = (\<lambda>c. True), is_address = (\<lambda>a. False),
          to_checksum_address = (\<lambda>a. a), get_code = (\<lambda>a. Inr 0)\<rparr>
         0 ''0x1234567890123456789012345678901234567890'' ETHEREUM)
      (Inl (OtherError ''timeout'')))
   = [''Analysis failed: Invalid address format: 0x1234567890123456789012345678901234567890'']"
  using provider_failure_sub_result
    [where pd = "collect_project_data ''0x1234567890123456789012345678901234567890''
                   ''contract'' (Inl (OtherError ''timeout'')) (Inl (OtherError ''timeout''))"
       and addr = "''0x1234567890123456789012345678901234567890''"
       and e = "ValueError ''Invalid address format: 0x1234567890123456789012345678901234567890''"
       and r_score = "Inl (OtherError ''timeout'')"
       and outcome = "Call_raises (OtherError ''timeout'')" and now = 0]
  by (simp add: collect_project_data_def analyze_contract_def)

text \<open>
  C6 as stated gives score 20 in every audit in which the provider fails. When the
  provider answers the agent's call for the demo address and times out inside
  \<open>quick_contract_score\<close>, the score is 50 and no risk reports the failure.
\<close>

theorem score_call_failure_scores_fifty:
  "score (analyze_on_chain_data
      (collect_project_data ''0x1234567890123456789012345678901234567890'' ''contract''
         (Inl (OtherError ''timeout'')) (Inl (OtherError ''timeout'')))
      (analyze_contract
         \<lparr>connected = (\<lambda>c. True), is_address = (\<lambda>a. True),
          to_checksum_address = (\<lambda>a. a), get_code = (\<lambda>a. Inr 1)\<rparr>
         0 ''0x1234567890123456789012345678901234567890'' ETHEREUM)
      (Inl (OtherError ''timeout''))) = 50
   \<and> risks (analyze_on_chain_data
      (collect_project_data ''0x1234567890123456789012345678901234567890'' ''contract''
         (Inl (OtherError ''timeout'')) (Inl (OtherError ''timeout'')))
      (analyze_contract
         \<lparr>connected = (\<lambda>c. True), is_address = (\<lambda>a. True),
          to_checksum_address = (\<lambda>a. a), get_code = (\<lambda>a. Inr 1)\<rparr>
         0 ''0x1234567890123456789012345678901234567890'' ETHEREUM)
      (Inl (OtherError ''timeout'')))
     = [''Owner has full control'', ''No timelock on critical functions'']"
  by (simp add: collect_project_data_def analyze_contract_def analyze_on_chain_data_def
      quick_contract_score_def Let_def)

end
